theory Spec2Isabelle
  imports Main
begin

section \<open>Python strings\<close>

text \<open>
  Python 2 byte strings are modelled as \<^typ>\<open>string\<close>.  The helpers below are the
  string operations that \<^verbatim>\<open>setup.py\<close> uses: \<^verbatim>\<open>sep.join(list)\<close>,
  \<^verbatim>\<open>s.strip()\<close>, \<^verbatim>\<open>s.split(" ")\<close> and the \<^verbatim>\<open>%d\<close>/\<^verbatim>\<open>%s\<close> conversion of a
  non-negative integer.
\<close>

fun str_join :: "string \<Rightarrow> string list \<Rightarrow> string" where
  "str_join sep [] = []"
| "str_join sep [x] = x"
| "str_join sep (x # y # ys) = x @ sep @ str_join sep (y # ys)"

definition is_space :: "char \<Rightarrow> bool" where
  "is_space c = (c = CHR '' '' \<or> c = CHR 0x09 \<or> c = CHR 0x0A \<or> c = CHR 0x0B
     \<or> c = CHR 0x0C \<or> c = CHR 0x0D)"

definition str_strip :: "string \<Rightarrow> string" where
  "str_strip s = rev (dropWhile is_space (rev (dropWhile is_space s)))"

fun str_split :: "char \<Rightarrow> string \<Rightarrow> string list" where
  "str_split c [] = [[]]"
| "str_split c (x # xs) =
     (if x = c then [] # str_split c xs
      else (case str_split c xs of
              [] \<Rightarrow> [[x]]
            | w # ws \<Rightarrow> (x # w) # ws))"

definition digit_char :: "nat \<Rightarrow> char" where
  "digit_char d = ''0123456789'' ! d"

fun str_of_nat :: "nat \<Rightarrow> string" where
  "str_of_nat n =
     (if n < 10 then [digit_char n] else str_of_nat (n div 10) @ [digit_char (n mod 10)])"

section \<open>Errors, effects and the host\<close>

text \<open>
  Every exception the script can surface is a value of \<open>error\<close>.
  \<open>CalledProcessError rc cmd out\<close> is \<^verbatim>\<open>subprocess.CalledProcessError\<close> with its
  three attributes \<^verbatim>\<open>returncode\<close>, \<^verbatim>\<open>cmd\<close> and \<^verbatim>\<open>output\<close>; the last is \<open>None\<close>
  when the raiser passed no \<^verbatim>\<open>output=\<close> argument.
\<close>

datatype error =
    CalledProcessError int string "string option"
  | RuntimeError string
  | NotImplementedError string
  | WindowsError
  | OSError string
  | TypeError


fun error_cmd :: "error \<Rightarrow> string option" where
  "error_cmd (CalledProcessError rc c out) = Some c"
| "error_cmd e = None"

fun error_output :: "error \<Rightarrow> string option" where
  "error_output (CalledProcessError rc c out) = out"
| "error_output e = None"

text \<open>
  \<^verbatim>\<open>distutils.core.Extension\<close>, with the attributes the script reads or sets.  A macro
  definition is the pair \<^verbatim>\<open>(name, value)\<close>, an undefinition the 1-tuple \<^verbatim>\<open>(name,)\<close>.
\<close>

datatype macro = Define string "string option" | Undef string

record extension =
  ext_name :: string
  ext_sources :: "string list"
  define_macros :: "(string \<times> string option) list"
  undef_macros :: "string list"
  include_dirs :: "string list"
  ext_depends :: "string list"
  library_dirs :: "string list"
  runtime_library_dirs :: "string list"
  extra_compile_args :: "string list"
  extra_link_args :: "string list"

record compile_call =
  cc_sources :: "string list"
  cc_output_dir :: string
  cc_macros :: "macro list"
  cc_include_dirs :: "string list"
  cc_debug :: bool
  cc_extra_postargs :: "string list"
  cc_depends :: "string list"

record link_call =
  ld_objects :: "string list"
  ld_output_progname :: string
  ld_output_dir :: string
  ld_libraries :: "string list"
  ld_library_dirs :: "string list"
  ld_runtime_library_dirs :: "string list"
  ld_extra_postargs :: "string list"
  ld_debug :: bool

text \<open>
  The script acts on the world only through library calls.  Each call that starts a
  process, writes to the file system, runs the stock distutils machinery or prints a
  message is an \<open>event\<close>; a run of a command is the list of its events, oldest first,
  with its result.  Reads of the file system (\<^verbatim>\<open>os.path.exists\<close>, \<^verbatim>\<open>os.path.isdir\<close>,
  \<^verbatim>\<open>os.listdir\<close>, \<^verbatim>\<open>glob\<close>) are observations of the host and leave no event.
\<close>

datatype event =
    Announce string
  | Warn string
  | CheckCall string bool
  | Popen string bool
  | MakeDirs string
  | MkPath string
  | CopyFile string string
  | StockBuildExtension extension
  | CompilerCompile compile_call
  | LinkExecutable link_call
  | StockFinalizeOptions
  | GetFinalizedCommand string

type_synonym 'a run = "event list \<times> (error + 'a)"

definition ret :: "'a \<Rightarrow> 'a run" where
  "ret x = ([], Inr x)"

definition raise :: "error \<Rightarrow> 'a run" where
  "raise e = ([], Inl e)"

definition emit :: "event \<Rightarrow> unit run" where
  "emit e = ([e], Inr ())"

definition bind :: "'a run \<Rightarrow> ('a \<Rightarrow> 'b run) \<Rightarrow> 'b run" where
  "bind m f =
     (case m of
        (t, Inl e) \<Rightarrow> (t, Inl e)
      | (t, Inr x) \<Rightarrow> (case f x of (t', r) \<Rightarrow> (t @ t', r)))"

text \<open>
  The host: everything the script reads from its surroundings.  \<open>run_process h cmd\<close> is
  the exit status and the standard output of the external command \<open>cmd\<close>; the registry
  answers \<^verbatim>\<open>_winreg.OpenKey\<close> (\<open>None\<close>: \<^verbatim>\<open>WindowsError\<close>) and then
  \<^verbatim>\<open>QueryValueEx(hkey, "MSBuildToolsPath")\<close> (\<open>None\<close>: \<^verbatim>\<open>WindowsError\<close>; otherwise the
  value and whether its type is \<^verbatim>\<open>REG_SZ\<close>).  The effect of an external tool on the file
  system is not modelled: all observations within one command read the same snapshot.
  A tool that cannot be started and an I/O failure inside a distutils call are outside
  the model.
\<close>

record host =
  sys_platform :: string
  architecture_bits :: string
  version_info :: "nat \<times> nat"
  maxunicode :: nat
  registry :: "string \<Rightarrow> (string \<times> bool) option option"
  run_process :: "string \<Rightarrow> int \<times> string"
  os_listdir :: "string \<Rightarrow> string list option"
  os_path_exists :: "string \<Rightarrow> bool"
  os_path_isdir :: "string \<Rightarrow> bool"
  os_path_abspath :: "string \<Rightarrow> string"
  get_ext_fullpath :: "string \<Rightarrow> string"
  build_temp :: string
  debug_flag :: bool
  get_libraries :: "extension \<Rightarrow> string list"
  compiled_objects :: "compile_call \<Rightarrow> string list"
  bldlibrary :: "string option"

text \<open>
  \<^verbatim>\<open>subprocess.check_call(cmd, shell=...)\<close>: runs the command with its output going to
  the caller's own streams, and raises \<^verbatim>\<open>CalledProcessError(retcode, cmd)\<close> on a
  non-zero exit status.  The exception is built without an \<^verbatim>\<open>output\<close> argument.
\<close>

definition check_call :: "host \<Rightarrow> string \<Rightarrow> bool \<Rightarrow> unit run" where
  "check_call h cmd shell =
     bind (emit (CheckCall cmd shell))
       (\<lambda>_. let retcode = fst (run_process h cmd) in
             if retcode \<noteq> 0 then raise (CalledProcessError retcode cmd None) else ret ())"

text \<open>
  \<^verbatim>\<open>_check_output\<close> (lines 228-241): \<^verbatim>\<open>Popen(stdout=PIPE, ...)\<close>, \<^verbatim>\<open>communicate()\<close>,
  then \<^verbatim>\<open>CalledProcessError(retcode, cmd, output=output)\<close> on a non-zero status.  Only
  standard output is piped.
\<close>

definition check_output :: "host \<Rightarrow> string \<Rightarrow> bool \<Rightarrow> string run" where
  "check_output h cmd shell =
     bind (emit (Popen cmd shell))
       (\<lambda>_. let output = snd (run_process h cmd); retcode = fst (run_process h cmd) in
             if retcode \<noteq> 0 then raise (CalledProcessError retcode cmd (Some output))
             else ret output)"

section \<open>Module constants and paths\<close>

text \<open>Lines 17-20 of \<^verbatim>\<open>setup.py\<close>.\<close>

definition CONFIG :: string where
  "CONFIG = ''Release''"

definition DEVTOOLS :: "host \<Rightarrow> string" where
  "DEVTOOLS h = (if sys_platform h = ''win32'' then ''MsDev'' else ''Mono'')"

definition VERBOSITY :: string where
  "VERBOSITY = ''minimal''"

definition PLATFORM :: "host \<Rightarrow> string" where
  "PLATFORM h = (if architecture_bits h = ''64bit'' then ''x64'' else ''x86'')"

text \<open>
  \<^verbatim>\<open>os.path\<close> is \<^verbatim>\<open>ntpath\<close> on \<^verbatim>\<open>win32\<close> and \<^verbatim>\<open>posixpath\<close> elsewhere.  Both are
  modelled by the same functions over the platform's separators; drive letters and UNC
  prefixes of \<^verbatim>\<open>ntpath\<close> are not modelled.
\<close>

definition os_sep :: "host \<Rightarrow> char" where
  "os_sep h = (if sys_platform h = ''win32'' then CHR 0x5C else CHR ''/'')"

definition is_sep :: "host \<Rightarrow> char \<Rightarrow> bool" where
  "is_sep h c = (if sys_platform h = ''win32'' then c = CHR 0x5C \<or> c = CHR ''/''
                 else c = CHR ''/'')"

definition starts_with_sep :: "host \<Rightarrow> string \<Rightarrow> bool" where
  "starts_with_sep h p = (case p of [] \<Rightarrow> False | c # cs \<Rightarrow> is_sep h c)"

definition ends_with_sep :: "host \<Rightarrow> string \<Rightarrow> bool" where
  "ends_with_sep h p = starts_with_sep h (rev p)"

definition join2 :: "host \<Rightarrow> string \<Rightarrow> string \<Rightarrow> string" where
  "join2 h path b =
     (if starts_with_sep h b then b
      else if path = [] \<or> ends_with_sep h path then path @ b
      else path @ [os_sep h] @ b)"

fun os_path_join :: "host \<Rightarrow> string list \<Rightarrow> string" where
  "os_path_join h [] = []"
| "os_path_join h (a # ps) = foldl (join2 h) a ps"

definition os_path_basename :: "host \<Rightarrow> string \<Rightarrow> string" where
  "os_path_basename h p = rev (takeWhile (\<lambda>c. \<not> is_sep h c) (rev p))"

definition os_path_dirname :: "host \<Rightarrow> string \<Rightarrow> string" where
  "os_path_dirname h p =
     (let head = rev (dropWhile (\<lambda>c. \<not> is_sep h c) (rev p)) in
      if head \<noteq> [] \<and> \<not> list_all (is_sep h) head
      then rev (dropWhile (is_sep h) (rev head))
      else head)"

section \<open>Toolchain selection (lines 23-72)\<close>

definition keys_to_check :: "string list" where
  "keys_to_check =
     [''SOFTWARE'' @ [CHR 0x5C] @ ''Microsoft'' @ [CHR 0x5C] @ ''MSBuild'' @ [CHR 0x5C]
        @ ''ToolsVersions'' @ [CHR 0x5C] @ ''12.0'',
      ''SOFTWARE'' @ [CHR 0x5C] @ ''Microsoft'' @ [CHR 0x5C] @ ''MSBuild'' @ [CHR 0x5C]
        @ ''ToolsVersions'' @ [CHR 0x5C] @ ''4.0'',
      ''SOFTWARE'' @ [CHR 0x5C] @ ''Microsoft'' @ [CHR 0x5C] @ ''MSBuild'' @ [CHR 0x5C]
        @ ''ToolsVersions'' @ [CHR 0x5C] @ ''3.5'',
      ''SOFTWARE'' @ [CHR 0x5C] @ ''Microsoft'' @ [CHR 0x5C] @ ''MSBuild'' @ [CHR 0x5C]
        @ ''ToolsVersions'' @ [CHR 0x5C] @ ''2.0'']"



text \<open>
  The module globals \<^verbatim>\<open>_xbuild\<close>, \<^verbatim>\<open>_defines_sep\<close>, \<^verbatim>\<open>_config\<close> and \<^verbatim>\<open>_npython_exe\<close>,
  set once when the module is loaded (lines 59-72).
\<close>

record toolchain =
  xbuild :: string
  defines_sep :: string
  config_name :: string
  npython_exe :: string


section \<open>PythonNET\_BuildExt (lines 75-190)\<close>

text \<open>\<^verbatim>\<open>_install_packages\<close>: the body of the loop over \<^verbatim>\<open>os.listdir("src")\<close>.\<close>

fun install_packages_loop :: "host \<Rightarrow> string \<Rightarrow> bool \<Rightarrow> string list \<Rightarrow> unit run" where
  "install_packages_loop h nuget use_shell [] = ret ()"
| "install_packages_loop h nuget use_shell (dir # dirs) =
     (if DEVTOOLS h = ''Mono'' \<and> dir = ''clrmodule'' then
        install_packages_loop h nuget use_shell dirs
      else if DEVTOOLS h \<noteq> ''Mono'' \<and> dir = ''monoclr'' then
        install_packages_loop h nuget use_shell dirs
      else
        let packages_cfg = os_path_join h [''src'', dir, ''packages.config''] in
        if \<not> os_path_exists h packages_cfg then
          install_packages_loop h nuget use_shell dirs
        else
          let cmd = nuget @ '' install '' @ packages_cfg @ '' -o packages'' in
          bind (emit (Announce (''Installng packages for '' @ dir @ '': '' @ cmd)))
            (\<lambda>_. bind (check_call h cmd use_shell)
              (\<lambda>_. install_packages_loop h nuget use_shell dirs)))"

definition install_packages :: "host \<Rightarrow> unit run" where
  "install_packages h =
     (let nuget = os_path_join h [''tools'', ''nuget'', ''nuget.exe''];
          use_shell = False;
          nuget = (if DEVTOOLS h = ''Mono'' then ''mono '' @ nuget else nuget);
          use_shell = (if DEVTOOLS h = ''Mono'' then True else use_shell)
      in case os_listdir h ''src'' of
           None \<Rightarrow> raise (OSError ''src'')
         | Some dirs \<Rightarrow> install_packages_loop h nuget use_shell dirs)"

text \<open>\<^verbatim>\<open>_build_monoclr\<close> (lines 119-167).\<close>

definition build_monoclr :: "host \<Rightarrow> toolchain \<Rightarrow> extension \<Rightarrow> unit run" where
  "build_monoclr h g ext =
     bind (check_output h ''pkg-config --libs mono-2'' True) (\<lambda>mono_libs.
     bind (check_output h ''pkg-config --cflags mono-2'' True) (\<lambda>mono_cflags.
     bind (check_output h ''pkg-config --libs glib-2.0'' True) (\<lambda>glib_libs.
     bind (check_output h ''pkg-config --cflags glib-2.0'' True) (\<lambda>glib_cflags.
     let cflags = str_strip mono_cflags @ '' '' @ str_strip glib_cflags;
         libs = str_strip mono_libs @ '' '' @ str_strip glib_libs;
         clr_ext = \<lparr>ext_name = ''clr'',
                    ext_sources = [''src/monoclr/pynetinit.c'', ''src/monoclr/clrmod.c''],
                    define_macros = [], undef_macros = [], include_dirs = [],
                    ext_depends = [], library_dirs = [], runtime_library_dirs = [],
                    extra_compile_args = str_split CHR '' '' cflags,
                    extra_link_args = str_split CHR '' '' libs\<rparr>
     in
     bind (emit (StockBuildExtension clr_ext)) (\<lambda>_.
     let sources = [''src/monoclr/pynetinit.c'', ''src/monoclr/python.c''];
         macros = map (\<lambda>(n, v). Define n v) (define_macros ext) @ map Undef (undef_macros ext);
         call = \<lparr>cc_sources = sources, cc_output_dir = build_temp h, cc_macros = macros,
                 cc_include_dirs = include_dirs ext, cc_debug = debug_flag h,
                 cc_extra_postargs = str_split CHR '' '' cflags,
                 cc_depends = ext_depends ext\<rparr>
     in
     bind (emit (CompilerCompile call)) (\<lambda>_.
     let objects = compiled_objects h call;
         output_dir = os_path_dirname h (get_ext_fullpath h (ext_name ext))
     in
     case bldlibrary h of
       None \<Rightarrow> raise TypeError
     | Some py_libs \<Rightarrow>
         let libs = libs @ '' '' @ py_libs in
         emit (LinkExecutable
           \<lparr>ld_objects = objects, ld_output_progname = npython_exe g,
            ld_output_dir = output_dir, ld_libraries = get_libraries h ext,
            ld_library_dirs = library_dirs ext,
            ld_runtime_library_dirs = runtime_library_dirs ext,
            ld_extra_postargs = str_split CHR '' '' libs, ld_debug = debug_flag h\<rparr>)))))))"

text \<open>The local variables \<^verbatim>\<open>defines\<close> and \<^verbatim>\<open>cmd\<close> of \<^verbatim>\<open>build_extension\<close> (lines 92-108).\<close>

definition build_defines :: "host \<Rightarrow> string list" where
  "build_defines h =
     (let defines =
        [''PYTHON'' @ str_of_nat (fst (version_info h)) @ str_of_nat (snd (version_info h)),
         if maxunicode h < 0x10FFFF then ''UCS2'' else ''UCS4'']
      in if CONFIG = ''Debug'' then defines @ [''DEBUG'', ''TRACE''] else defines)"

definition build_cmd :: "host \<Rightarrow> toolchain \<Rightarrow> string \<Rightarrow> string list" where
  "build_cmd h g dest_dir =
     [xbuild g,
      ''pythonnet.sln'',
      ''/p:Configuration='' @ config_name g,
      ''/p:Platform='' @ PLATFORM h,
      ''/p:DefineConstants='' @ [CHR 0x22] @ str_join (defines_sep g) (build_defines h)
         @ [CHR 0x22],
      ''/p:PythonBuildDir='' @ os_path_abspath h dest_dir,
      ''/verbosity:'' @ VERBOSITY]"

text \<open>\<^verbatim>\<open>build_extension\<close> (lines 77-116).\<close>

definition build_extension :: "host \<Rightarrow> toolchain \<Rightarrow> extension \<Rightarrow> unit run" where
  "build_extension h g ext =
     (if ext_name ext \<noteq> ''clr'' then emit (StockBuildExtension ext)
      else
        bind (install_packages h) (\<lambda>_.
        let dest_file = get_ext_fullpath h (ext_name ext);
            dest_dir = os_path_dirname h dest_file
        in
        bind (if \<not> os_path_exists h dest_dir then emit (MakeDirs dest_dir) else ret ()) (\<lambda>_.
        let cmd = build_cmd h g dest_dir in
        bind (emit (Announce (''Building: '' @ str_join '' '' cmd))) (\<lambda>_.
        let use_shell = (if DEVTOOLS h = ''Mono'' then True else False) in
        bind (check_call h (str_join '' '' (cmd @ [''/t:Clean''])) use_shell) (\<lambda>_.
        bind (check_call h (str_join '' '' (cmd @ [''/t:Build''])) use_shell) (\<lambda>_.
        if DEVTOOLS h = ''Mono'' then build_monoclr h g ext else ret ()))))))"

section \<open>PythonNET\_InstallLib (lines 193-208)\<close>

text \<open>
  \<^verbatim>\<open>glob.glob\<close> of Python 2.7, for a path whose directory part has no wildcard
  character: the entries of the directory part that match the last component, in the
  order of \<^verbatim>\<open>os.listdir\<close>, each joined to the directory part (a directory part
  with wildcard characters, which \<^verbatim>\<open>glob\<close> would expand first, is outside the model:
  the properties below assume a build directory without them).  The pattern language
  modelled is \<^verbatim>\<open>*\<close>, \<^verbatim>\<open>?\<close> and literal characters (neither fixed pattern of the
  script has a character class).  \<^verbatim>\<open>fnmatch.filter\<close> compares after
  \<^verbatim>\<open>os.path.normcase\<close>, which on \<^verbatim>\<open>win32\<close> lower-cases and turns \<^verbatim>\<open>/\<close> into a
  backslash, and is the identity elsewhere.
\<close>

fun fn_match :: "string \<Rightarrow> string \<Rightarrow> bool" where
  "fn_match [] [] = True"
| "fn_match [] (c # cs) = False"
| "fn_match (p # ps) [] = (p = CHR ''*'' \<and> fn_match ps [])"
| "fn_match (p # ps) (c # cs) =
     (if p = CHR ''*'' then fn_match ps (c # cs) \<or> fn_match (p # ps) cs
      else if p = CHR ''?'' then fn_match ps cs
      else p = c \<and> fn_match ps cs)"

definition ascii_lower :: "char \<Rightarrow> char" where
  "ascii_lower c =
     (case map_of (zip ''ABCDEFGHIJKLMNOPQRSTUVWXYZ'' ''abcdefghijklmnopqrstuvwxyz'') c of
        None \<Rightarrow> c
      | Some l \<Rightarrow> l)"

definition normcase :: "host \<Rightarrow> string \<Rightarrow> string" where
  "normcase h s =
     (if sys_platform h = ''win32''
      then map (\<lambda>c. if c = CHR ''/'' then CHR 0x5C else ascii_lower c) s
      else s)"

definition fnmatch :: "host \<Rightarrow> string \<Rightarrow> string \<Rightarrow> bool" where
  "fnmatch h name pat = fn_match (normcase h pat) (normcase h name)"

definition fnmatch_filter :: "host \<Rightarrow> string list \<Rightarrow> string \<Rightarrow> string list" where
  "fnmatch_filter h names pat = filter (\<lambda>name. fnmatch h name pat) names"

definition has_magic :: "string \<Rightarrow> bool" where
  "has_magic s = list_ex (\<lambda>c. c = CHR ''*'' \<or> c = CHR ''?'' \<or> c = CHR ''['') s"

definition glob1 :: "host \<Rightarrow> string \<Rightarrow> string \<Rightarrow> string list" where
  "glob1 h dirname pattern =
     (case os_listdir h dirname of
        None \<Rightarrow> []
      | Some names \<Rightarrow>
          let names = (if take 1 pattern \<noteq> ''.'' then filter (\<lambda>x. take 1 x \<noteq> ''.'') names
                       else names)
          in fnmatch_filter h names pattern)"

definition glob :: "host \<Rightarrow> string \<Rightarrow> string list" where
  "glob h pathname =
     (let dirname = os_path_dirname h pathname;
          basename = os_path_basename h pathname
      in if \<not> has_magic pathname then
           (if basename \<noteq> [] then (if os_path_exists h pathname then [pathname] else [])
            else (if os_path_isdir h dirname then [pathname] else []))
         else if dirname = [] then glob1 h ''.'' basename
         else map (\<lambda>name. os_path_join h [dirname, name]) (glob1 h dirname basename))"

fun copy_files :: "host \<Rightarrow> string \<Rightarrow> string list \<Rightarrow> unit run" where
  "copy_files h install_dir [] = ret ()"
| "copy_files h install_dir (srcfile # rest) =
     (let destfile = os_path_join h [install_dir, os_path_basename h srcfile] in
      bind (emit (CopyFile srcfile destfile)) (\<lambda>_. copy_files h install_dir rest))"

fun copy_patterns :: "host \<Rightarrow> string \<Rightarrow> string \<Rightarrow> string list \<Rightarrow> unit run" where
  "copy_patterns h build_dir install_dir [] = ret ()"
| "copy_patterns h build_dir install_dir (pattern # ps) =
     bind (copy_files h install_dir (glob h (os_path_join h [build_dir, pattern])))
       (\<lambda>_. copy_patterns h build_dir install_dir ps)"

definition install :: "host \<Rightarrow> string \<Rightarrow> string \<Rightarrow> unit run" where
  "install h build_dir install_dir =
     (if \<not> os_path_isdir h build_dir then
        emit (Warn ([CHR 0x27] @ build_dir @ [CHR 0x27]
                @ '' does not exist -- no Python modules to install''))
      else
        bind (if \<not> os_path_exists h install_dir then emit (MkPath install_dir) else ret ())
          (\<lambda>_. copy_patterns h build_dir install_dir [''clr.*'', ''Python.Runtime.*'']))"

section \<open>PythonNET\_BuildScripts (lines 211-225)\<close>

text \<open>
  The argument is \<^verbatim>\<open>self.scripts\<close> as the stock \<^verbatim>\<open>finalize_options\<close> leaves it
  (\<open>None\<close> when the distribution has no scripts); the result is \<^verbatim>\<open>self.scripts\<close> at the
  end.
\<close>

definition finalize_options :: "host \<Rightarrow> string list option \<Rightarrow> string list option run" where
  "finalize_options h self_scripts =
     bind (emit StockFinalizeOptions) (\<lambda>_.
       case self_scripts of
         None \<Rightarrow> ret None
       | Some [] \<Rightarrow> ret (Some [])
       | Some (s # ss) \<Rightarrow>
           bind (emit (GetFinalizedCommand ''build_ext'')) (\<lambda>_.
             let output_dir = os_path_dirname h (get_ext_fullpath h ''clr'') in
             ret (Some (map (\<lambda>script.
                      if os_path_exists h (os_path_join h [output_dir, script])
                      then os_path_join h [output_dir, script]
                      else script) (s # ss)))))"

section \<open>Reading a run\<close>

text \<open>
  Projections of a run used to state the properties: the \<^verbatim>\<open>check_call\<close> invocations,
  the \<^verbatim>\<open>Popen\<close> queries and the file copies of a trace, in order, and the error a run
  ends with.
\<close>

fun check_calls :: "event list \<Rightarrow> (string \<times> bool) list" where
  "check_calls [] = []"
| "check_calls (CheckCall c s # t) = (c, s) # check_calls t"
| "check_calls (e # t) = check_calls t"

fun popen_calls :: "event list \<Rightarrow> (string \<times> bool) list" where
  "popen_calls [] = []"
| "popen_calls (Popen c s # t) = (c, s) # popen_calls t"
| "popen_calls (e # t) = popen_calls t"

fun copied_files :: "event list \<Rightarrow> (string \<times> string) list" where
  "copied_files [] = []"
| "copied_files (CopyFile src dst # t) = (src, dst) # copied_files t"
| "copied_files (e # t) = copied_files t"

definition surfaced_error :: "'a run \<Rightarrow> error option" where
  "surfaced_error r = (case snd r of Inl e \<Rightarrow> Some e | Inr x \<Rightarrow> None)"

text \<open>An event that starts a process or writes to the file system.\<close>

fun touches_files :: "event \<Rightarrow> bool" where
  "touches_files (Announce m) = False"
| "touches_files (Warn m) = False"
| "touches_files StockFinalizeOptions = False"
| "touches_files (GetFinalizedCommand c) = False"
| "touches_files e = True"

text \<open>An event of the native shim build: a configuration query or a compiler call.\<close>

fun is_shim_event :: "event \<Rightarrow> bool" where
  "is_shim_event (Popen c s) = True"
| "is_shim_event (StockBuildExtension x) = True"
| "is_shim_event (CompilerCompile c) = True"
| "is_shim_event (LinkExecutable l) = True"
| "is_shim_event e = False"


text \<open>
  The output directory of the \<^verbatim>\<open>clr\<close> extension, and the two build tool invocations
  of \<^verbatim>\<open>build_extension\<close> (lines 112-113) as command line and \<^verbatim>\<open>shell\<close> flag.
\<close>

definition clr_dest_dir :: "host \<Rightarrow> string" where
  "clr_dest_dir h = os_path_dirname h (get_ext_fullpath h ''clr'')"

definition xbuild_call :: "host \<Rightarrow> toolchain \<Rightarrow> string \<Rightarrow> string \<times> bool" where
  "xbuild_call h g target =
     (str_join '' '' (build_cmd h g (clr_dest_dir h) @ [''/t:'' @ target]),
      DEVTOOLS h = ''Mono'')"

text \<open>
  The restore rule in the words of the specification: a subdirectory is reserved for the
  inactive toolchain, it has a package manifest, and the restore command for it.
\<close>

definition reserved_for_inactive :: "host \<Rightarrow> string \<Rightarrow> bool" where
  "reserved_for_inactive h d =
     (if DEVTOOLS h = ''Mono'' then d = ''clrmodule'' else d = ''monoclr'')"

definition manifest_path :: "host \<Rightarrow> string \<Rightarrow> string" where
  "manifest_path h d = os_path_join h [''src'', d, ''packages.config'']"

definition restore_eligible :: "host \<Rightarrow> string \<Rightarrow> bool" where
  "restore_eligible h d =
     (\<not> reserved_for_inactive h d \<and> os_path_exists h (manifest_path h d))"

text \<open>The script relocation rule in the words of the specification.\<close>

definition relocated :: "host \<Rightarrow> string \<Rightarrow> string" where
  "relocated h script =
     (if os_path_exists h (os_path_join h [clr_dest_dir h, script])
      then os_path_join h [clr_dest_dir h, script]
      else script)"

definition restore_call :: "host \<Rightarrow> string \<Rightarrow> string \<times> bool" where
  "restore_call h d =
     ((if DEVTOOLS h = ''Mono'' then ''mono '' else [])
        @ os_path_join h [''tools'', ''nuget'', ''nuget.exe'']
        @ '' install '' @ manifest_path h d @ '' -o packages'',
      DEVTOOLS h = ''Mono'')"

text \<open>
  The flag discovery in the words of the specification: the captured output of one
  query, and the two flag strings built from the trimmed outputs in library order.
\<close>

definition pkg_config :: "string \<Rightarrow> string \<Rightarrow> string" where
  "pkg_config opt lib = ''pkg-config --'' @ opt @ '' '' @ lib"

definition discovered_cflags :: "host \<Rightarrow> string" where
  "discovered_cflags h =
     str_strip (snd (run_process h (pkg_config ''cflags'' ''mono-2''))) @ '' ''
       @ str_strip (snd (run_process h (pkg_config ''cflags'' ''glib-2.0'')))"

definition discovered_libs :: "host \<Rightarrow> string" where
  "discovered_libs h =
     str_strip (snd (run_process h (pkg_config ''libs'' ''mono-2''))) @ '' ''
       @ str_strip (snd (run_process h (pkg_config ''libs'' ''glib-2.0'')))"



text \<open>
  What an event of the shim build has to look like: the extension handed to the stock
  builder is named \<^verbatim>\<open>clr\<close> (so it is written to the path of the \<^verbatim>\<open>clr\<close> extension),
  objects go to the temporary build directory, and the executable is linked into the
  output directory of the \<^verbatim>\<open>clr\<close> extension under the toolchain's executable name.
\<close>

definition shim_event_ok :: "host \<Rightarrow> toolchain \<Rightarrow> event \<Rightarrow> bool" where
  "shim_event_ok h g e =
     (case e of
        Popen c s \<Rightarrow> True
      | StockBuildExtension x \<Rightarrow> ext_name x = ''clr''
      | CompilerCompile c \<Rightarrow> cc_output_dir c = build_temp h
      | LinkExecutable l \<Rightarrow>
          ld_output_dir l = clr_dest_dir h \<and> ld_output_progname l = npython_exe g
      | _ \<Rightarrow> False)"

section \<open>Example hosts\<close>

text \<open>
  Concrete hosts on which the theorems below are exercised: a Linux host with Mono, a
  Windows host with MSBuild in the registry, and two Linux hosts on which one external
  tool exits with status 1 after printing a diagnostic.
\<close>

definition clr_extension :: extension where
  "clr_extension =
     \<lparr>ext_name = ''clr'', ext_sources = [], define_macros = [], undef_macros = [],
      include_dirs = [], ext_depends = [], library_dirs = [], runtime_library_dirs = [],
      extra_compile_args = [], extra_link_args = []\<rparr>"

definition other_extension :: extension where
  "other_extension = clr_extension\<lparr>ext_name := ''speedups'', ext_sources := [''speedups.c'']\<rparr>"

definition linux_host :: host where
  "linux_host =
     \<lparr>sys_platform = ''linux2'',
      architecture_bits = ''64bit'',
      version_info = (2, 7),
      maxunicode = 1114111,
      registry = (\<lambda>k. None),
      run_process = (\<lambda>cmd.
        if cmd = ''pkg-config --libs mono-2'' then (0, ''-lmono-2.0 -lm '' @ [CHR 0x0A])
        else if cmd = ''pkg-config --cflags mono-2'' then (0, ''-I/usr/include/mono-2.0'' @ [CHR 0x0A])
        else if cmd = ''pkg-config --libs glib-2.0'' then (0, '' -lglib-2.0'' @ [CHR 0x0A])
        else if cmd = ''pkg-config --cflags glib-2.0'' then (0, ''-I/usr/include/glib-2.0'' @ [CHR 0x0A])
        else (0, [])),
      os_listdir = (\<lambda>p.
        if p = ''src'' then Some [''clrmodule'', ''monoclr'', ''runtime'', ''testing'']
        else if p = ''build/lib''
        then Some [''clr.so'', ''clr.pdb'', ''Python.Runtime.dll'', ''unrelated.tmp'']
        else None),
      os_path_exists = (\<lambda>p. p \<in> set [''src/clrmodule/packages.config'',
        ''src/monoclr/packages.config'', ''src/runtime/packages.config'', ''build/lib'',
        ''build/lib/npython'']),
      os_path_isdir = (\<lambda>p. p = ''build/lib''),
      os_path_abspath = (\<lambda>p. ''/work/'' @ p),
      get_ext_fullpath = (\<lambda>n. ''build/lib/'' @ n @ ''.so''),
      build_temp = ''build/temp'',
      debug_flag = False,
      get_libraries = (\<lambda>x. []),
      compiled_objects = (\<lambda>c. map (\<lambda>src. src @ ''.o'') (cc_sources c)),
      bldlibrary = Some ''-lpython2.7''\<rparr>"

definition mono_toolchain :: toolchain where
  "mono_toolchain =
     \<lparr>xbuild = ''xbuild'', defines_sep = '','', config_name = ''ReleaseMono'',
      npython_exe = ''npython''\<rparr>"

definition windows_host :: host where
  "windows_host =
     \<lparr>sys_platform = ''win32'',
      architecture_bits = ''32bit'',
      version_info = (2, 6),
      maxunicode = 65535,
      registry = (\<lambda>k. if k = keys_to_check ! 1
                        then Some (Some (''C:'' @ [CHR 0x5C] @ ''MSBuild'', True)) else None),
      run_process = (\<lambda>cmd. (0, [])),
      os_listdir = (\<lambda>p. if p = ''src'' then Some [''clrmodule'', ''monoclr''] else None),
      os_path_exists = (\<lambda>p. p \<in> set
        [''src'' @ [CHR 0x5C] @ ''clrmodule'' @ [CHR 0x5C] @ ''packages.config'',
         ''src'' @ [CHR 0x5C] @ ''monoclr'' @ [CHR 0x5C] @ ''packages.config'']),
      os_path_isdir = (\<lambda>p. False),
      os_path_abspath = (\<lambda>p. ''C:'' @ [CHR 0x5C] @ p),
      get_ext_fullpath = (\<lambda>n. ''build'' @ [CHR 0x5C] @ n @ ''.pyd''),
      build_temp = ''temp'',
      debug_flag = False,
      get_libraries = (\<lambda>x. []),
      compiled_objects = (\<lambda>c. []),
      bldlibrary = None\<rparr>"

definition msdev_toolchain :: toolchain where
  "msdev_toolchain =
     \<lparr>xbuild = [CHR 0x22] @ ''C:'' @ [CHR 0x5C] @ ''MSBuild'' @ [CHR 0x5C] @ ''msbuild.exe''
                @ [CHR 0x22],
      defines_sep = '';'', config_name = ''ReleaseWin'', npython_exe = ''nPython.exe''\<rparr>"

definition broken_xbuild_host :: host where
  "broken_xbuild_host =
     linux_host\<lparr>run_process :=
       (\<lambda>cmd. if take 6 cmd = ''xbuild'' then (1, ''error MSB1009: Project file does not exist'')
              else (0, []))\<rparr>"

definition broken_nuget_host :: host where
  "broken_nuget_host =
     linux_host\<lparr>run_process :=
       (\<lambda>cmd. if take 4 cmd = ''mono'' then (1, ''Unable to find version of package'')
              else (0, []))\<rparr>"

definition broken_pkg_config_host :: host where
  "broken_pkg_config_host =
     linux_host\<lparr>run_process :=
       (\<lambda>cmd. if take 10 cmd = ''pkg-config'' then (1, ''Package mono-2 was not found'')
              else (0, []))\<rparr>"

text \<open>The two build tool command lines and the restore command lines on the Linux hosts.\<close>

definition linux_xbuild_command :: "string \<Rightarrow> string" where
  "linux_xbuild_command target =
     ''xbuild pythonnet.sln /p:Configuration=ReleaseMono /p:Platform=x64 /p:DefineConstants=''
        @ [CHR 0x22] @ ''PYTHON27,UCS4'' @ [CHR 0x22]
        @ '' /p:PythonBuildDir=/work/build/lib /verbosity:minimal /t:'' @ target"

definition linux_restore_command :: "string \<Rightarrow> string" where
  "linux_restore_command d =
     ''mono tools/nuget/nuget.exe install src/'' @ d @ ''/packages.config -o packages''"

section \<open>Basic facts about runs\<close>

lemma bind_ret: "bind (ret x) f = f x"
  by (simp add: bind_def ret_def split: prod.splits)

lemma bind_raise: "bind (raise e) f = raise e"
  by (simp add: bind_def raise_def)

lemma bind_emit: "bind (emit e) f = (e # fst (f ()), snd (f ()))"
  by (simp add: bind_def emit_def split: prod.splits)

lemma bind_Inr: "bind (t, Inr x) f = (t @ fst (f x), snd (f x))"
  by (simp add: bind_def split: prod.splits)

lemma bind_Inl: "bind (t, Inl e) f = (t, Inl e)"
  by (simp add: bind_def)

lemma fst_ret: "fst (ret x) = []"
  by (simp add: ret_def)

lemma snd_ret: "snd (ret x) = Inr x"
  by (simp add: ret_def)

lemma fst_raise: "fst (raise e) = []"
  by (simp add: raise_def)

lemma snd_raise: "snd (raise e) = Inl e"
  by (simp add: raise_def)

lemma check_calls_append: "check_calls (s @ t) = check_calls s @ check_calls t"
  by (induction s rule: check_calls.induct) simp_all

lemma popen_calls_append: "popen_calls (s @ t) = popen_calls s @ popen_calls t"
  by (induction s rule: popen_calls.induct) simp_all


lemma check_call_run:
  "check_call h cmd sh =
     ([CheckCall cmd sh],
      if fst (run_process h cmd) \<noteq> 0
      then Inl (CalledProcessError (fst (run_process h cmd)) cmd None) else Inr ())"
  by (simp add: check_call_def bind_emit Let_def fst_ret snd_ret fst_raise snd_raise)

lemma check_output_run:
  "check_output h cmd sh =
     ([Popen cmd sh],
      if fst (run_process h cmd) \<noteq> 0
      then Inl (CalledProcessError (fst (run_process h cmd)) cmd (Some (snd (run_process h cmd))))
      else Inr (snd (run_process h cmd)))"
  by (simp add: check_output_def bind_emit Let_def fst_ret snd_ret fst_raise snd_raise)

section \<open>Trimming\<close>

text \<open>\<open>str_strip\<close> removes white space at both ends and nothing else.\<close>

lemma str_strip_decomp:
  "\<exists>a b. s = a @ str_strip s @ b \<and> list_all is_space a \<and> list_all is_space b"
proof -
  let ?t = "dropWhile is_space s"
  have s: "s = takeWhile is_space s @ ?t" by simp
  have "rev (takeWhile is_space (rev ?t) @ dropWhile is_space (rev ?t)) = ?t"
    by (simp only: takeWhile_dropWhile_id rev_rev_ident)
  then have "rev (dropWhile is_space (rev ?t)) @ rev (takeWhile is_space (rev ?t)) = ?t"
    by (simp only: rev_append)
  then have t: "?t = str_strip s @ rev (takeWhile is_space (rev ?t))"
    by (simp only: str_strip_def)
  have a: "list_all is_space (takeWhile is_space s)"
    by (auto simp: list_all_iff dest: set_takeWhileD)
  have b: "list_all is_space (rev (takeWhile is_space (rev ?t)))"
    by (auto simp: list_all_iff dest: set_takeWhileD)
  from s t have "s = takeWhile is_space s @ str_strip s @ rev (takeWhile is_space (rev ?t))"
    by metis
  with a b show ?thesis by blast
qed

lemma str_strip_ends:
  assumes "str_strip s \<noteq> []"
  shows "\<not> is_space (hd (str_strip s)) \<and> \<not> is_space (last (str_strip s))"
proof -
  let ?t = "dropWhile is_space s"
  let ?u = "dropWhile is_space (rev ?t)"
  have u: "?u \<noteq> []" using assms by (simp add: str_strip_def)
  then have "\<not> is_space (hd ?u)" by (rule hd_dropWhile)
  then have l: "\<not> is_space (last (str_strip s))"
    using u by (simp add: str_strip_def last_rev)
  have "rev ?t \<noteq> []" using u by (metis dropWhile.simps(1))
  then have t: "?t \<noteq> []" by simp
  then have ht: "\<not> is_space (hd ?t)" by (rule hd_dropWhile)
  obtain v where v: "rev ?t = v @ ?u"
    by (metis takeWhile_dropWhile_id)
  then have "?t = rev ?u @ rev v" by (metis rev_append rev_rev_ident)
  then have "hd ?t = hd (rev ?u)" using u by (metis hd_append2 rev_is_Nil_conv)
  with ht have "\<not> is_space (hd (str_strip s))" by (simp add: str_strip_def)
  with l show ?thesis by simp
qed

section \<open>Paths\<close>





lemmas path_eval = os_path_dirname_def os_path_basename_def is_sep_def join2_def
  starts_with_sep_def ends_with_sep_def os_sep_def

section \<open>Extensions other than clr\<close>

text \<open>
  Claim C10.  For an extension whose name is not \<^verbatim>\<open>clr\<close>, \<^verbatim>\<open>build_extension\<close> does
  nothing but hand the extension to the stock builder: the run is that single call, with
  no package restore, no build tool invocation, no directory creation and no shim build,
  and it ends without an error.
\<close>

theorem non_clr_extension_delegates:
  "ext_name ext \<noteq> ''clr'' \<Longrightarrow>
   build_extension h g ext = ([StockBuildExtension ext], Inr ())"
  by (simp add: build_extension_def emit_def)

theorem non_clr_extension_delegates_witness:
  "ext_name other_extension \<noteq> ''clr'' \<and>
   build_extension linux_host mono_toolchain other_extension
     = ([StockBuildExtension other_extension], Inr ())"
  using non_clr_extension_delegates [of other_extension linux_host mono_toolchain]
  by (simp add: other_extension_def clr_extension_def)

section \<open>Installing from a missing build directory\<close>

text \<open>
  Claim C4.  When the build output directory does not exist (is not a directory),
  \<^verbatim>\<open>install\<close> returns normally and its only effect is one warning: no directory is
  created and no file is copied.
\<close>

theorem install_missing_build_dir:
  "\<not> os_path_isdir h build_dir \<Longrightarrow>
   install h build_dir install_dir =
     ([Warn ([CHR 0x27] @ build_dir @ [CHR 0x27]
         @ '' does not exist -- no Python modules to install'')], Inr ())"
  by (simp add: install_def emit_def)

theorem install_missing_build_dir_witness:
  "\<not> os_path_isdir linux_host ''build/nowhere'' \<and>
   install linux_host ''build/nowhere'' ''site-packages'' =
     ([Warn ([CHR 0x27] @ ''build/nowhere'' @ [CHR 0x27]
         @ '' does not exist -- no Python modules to install'')], Inr ()) \<and>
   copied_files (fst (install linux_host ''build/nowhere'' ''site-packages'')) = []"
  using install_missing_build_dir [of linux_host "''build/nowhere''" "''site-packages''"]
  by (simp add: linux_host_def)

section \<open>Script relocation\<close>

text \<open>
  Claim C9.  \<^verbatim>\<open>finalize_options\<close> replaces each configured script by its path inside
  the output directory of the \<^verbatim>\<open>clr\<close> extension when that path exists, and keeps the
  script as it is otherwise; with no scripts configured the attribute is left alone.
  The run only consults the stock option machinery and makes existence checks: no event
  of it starts a process, creates a directory or copies a file.
\<close>

theorem script_relocation:
  "snd (finalize_options h (Some scripts)) = Inr (Some (map (relocated h) scripts)) \<and>
   snd (finalize_options h None) = Inr None \<and>
   (\<forall>e \<in> set (fst (finalize_options h self_scripts)). \<not> touches_files e)"
proof -
  have a: "snd (finalize_options h (Some scripts)) = Inr (Some (map (relocated h) scripts))"
    by (cases scripts)
       (simp_all add: finalize_options_def bind_emit snd_ret relocated_def clr_dest_dir_def Let_def)
  have b: "snd (finalize_options h None) = Inr None"
    by (simp add: finalize_options_def bind_emit snd_ret)
  have c: "\<forall>e \<in> set (fst (finalize_options h self_scripts)). \<not> touches_files e"
    by (simp add: finalize_options_def bind_emit fst_ret Let_def split: option.splits list.splits)
  from a b c show ?thesis by blast
qed

theorem script_relocation_witness:
  "snd (finalize_options linux_host (Some [''npython''])) = Inr (Some [''build/lib/npython'']) \<and>
   snd (finalize_options windows_host (Some [''nPython.exe''])) = Inr (Some [''nPython.exe'']) \<and>
   fst (finalize_options linux_host (Some [''npython'']))
     = [StockFinalizeOptions, GetFinalizedCommand ''build_ext'']"
proof -
  have r1: "relocated linux_host ''npython'' = ''build/lib/npython''"
    by (simp add: relocated_def clr_dest_dir_def linux_host_def os_path_dirname_def
        is_sep_def join2_def starts_with_sep_def ends_with_sep_def os_sep_def)
  have r2: "relocated windows_host ''nPython.exe'' = ''nPython.exe''"
    by (simp add: relocated_def clr_dest_dir_def windows_host_def os_path_dirname_def
        is_sep_def join2_def starts_with_sep_def ends_with_sep_def os_sep_def)
  have t: "fst (finalize_options linux_host (Some [''npython'']))
     = [StockFinalizeOptions, GetFinalizedCommand ''build_ext'']"
    by (simp add: finalize_options_def bind_emit fst_ret Let_def)
  show ?thesis
    using script_relocation [of linux_host "[''npython'']" "Some [''npython'']"]
      script_relocation [of windows_host "[''nPython.exe'']" None] r1 r2 t
    by simp
qed

section \<open>Package restore\<close>

lemma install_packages_loop_skip:
  "\<not> restore_eligible h d \<Longrightarrow>
   install_packages_loop h nuget sh (d # dirs) = install_packages_loop h nuget sh dirs"
  by (auto simp: restore_eligible_def reserved_for_inactive_def manifest_path_def Let_def
      split: if_splits)

lemma install_packages_loop_step:
  "restore_eligible h d \<Longrightarrow>
   install_packages_loop h nuget sh (d # dirs) =
     bind (emit (Announce (''Installng packages for '' @ d @ '': ''
             @ nuget @ '' install '' @ manifest_path h d @ '' -o packages'')))
       (\<lambda>_. bind (check_call h (nuget @ '' install '' @ manifest_path h d @ '' -o packages'') sh)
         (\<lambda>_. install_packages_loop h nuget sh dirs))"
  by (auto simp: restore_eligible_def reserved_for_inactive_def manifest_path_def Let_def
      split: if_splits)

lemma install_packages_loop_prefix:
  "\<exists>rest. map (\<lambda>d. (nuget @ '' install '' @ manifest_path h d @ '' -o packages'', sh))
             (filter (restore_eligible h) dirs)
          = check_calls (fst (install_packages_loop h nuget sh dirs)) @ rest"
proof (induction dirs)
  case Nil
  show ?case by (simp add: fst_ret)
next
  case (Cons d dirs)
  show ?case
  proof (cases "restore_eligible h d")
    case False
    then show ?thesis
      using Cons.IH by (simp add: install_packages_loop_skip del: install_packages_loop.simps)
  next
    case True
    then show ?thesis
      using Cons.IH
      by (simp add: install_packages_loop_step bind_emit check_call_run bind_Inr bind_Inl
          del: install_packages_loop.simps)
  qed
qed

lemma install_packages_loop_all:
  assumes "\<forall>d \<in> set (filter (restore_eligible h) dirs).
             fst (run_process h (nuget @ '' install '' @ manifest_path h d @ '' -o packages'')) = 0"
  shows "check_calls (fst (install_packages_loop h nuget sh dirs))
           = map (\<lambda>d. (nuget @ '' install '' @ manifest_path h d @ '' -o packages'', sh))
               (filter (restore_eligible h) dirs)
         \<and> snd (install_packages_loop h nuget sh dirs) = Inr ()"
  using assms
proof (induction dirs)
  case Nil
  show ?case by (simp add: fst_ret snd_ret)
next
  case (Cons d dirs)
  show ?case
  proof (cases "restore_eligible h d")
    case False
    then show ?thesis
      using Cons by (simp add: install_packages_loop_skip del: install_packages_loop.simps)
  next
    case True
    then show ?thesis
      using Cons
      by (simp add: install_packages_loop_step bind_emit check_call_run bind_Inr bind_Inl
          del: install_packages_loop.simps)
  qed
qed

lemma install_packages_unfold:
  "os_listdir h ''src'' = Some dirs \<Longrightarrow>
   install_packages h =
     install_packages_loop h
       ((if DEVTOOLS h = ''Mono'' then ''mono '' else []) @ os_path_join h [''tools'', ''nuget'', ''nuget.exe''])
       (DEVTOOLS h = ''Mono'') dirs"
  by (simp add: install_packages_def Let_def)

lemma restore_call_eq:
  "restore_call h = (\<lambda>d. (((if DEVTOOLS h = ''Mono'' then ''mono '' else []) @ os_path_join h [''tools'', ''nuget'', ''nuget.exe'']) @ '' install '' @ manifest_path h d @ '' -o packages'', DEVTOOLS h = ''Mono''))"
  by (rule ext) (simp add: restore_call_def)

text \<open>
  Claim C2.  With the entries \<open>dirs\<close> of \<^verbatim>\<open>src\<close>, the restore step skips the entries
  reserved for the inactive toolchain and the entries without a \<^verbatim>\<open>packages.config\<close>:
  its \<^verbatim>\<open>check_call\<close> invocations are always an initial part of the restore commands
  of the remaining entries, in listing order, each naming that entry's manifest and the
  shared \<^verbatim>\<open>packages\<close> directory; when every such command exits with status 0 they are
  exactly those commands, one per remaining entry, and the step ends without an error.
\<close>

theorem restore_selects_eligible:
  "os_listdir h ''src'' = Some dirs \<Longrightarrow>
   (\<exists>rest. map (restore_call h) (filter (restore_eligible h) dirs)
              = check_calls (fst (install_packages h)) @ rest) \<and>
   ((\<forall>d \<in> set (filter (restore_eligible h) dirs). fst (run_process h (fst (restore_call h d))) = 0)
      \<longrightarrow> check_calls (fst (install_packages h))
            = map (restore_call h) (filter (restore_eligible h) dirs)
          \<and> snd (install_packages h) = Inr ())"
proof -
  assume ls: "os_listdir h ''src'' = Some dirs"
  let ?nuget = "(if DEVTOOLS h = ''Mono'' then ''mono '' else []) @ os_path_join h [''tools'', ''nuget'', ''nuget.exe'']"
  have a: "\<exists>rest. map (restore_call h) (filter (restore_eligible h) dirs)
              = check_calls (fst (install_packages h)) @ rest"
    unfolding install_packages_unfold [OF ls] restore_call_eq
    by (rule install_packages_loop_prefix)
  have b: "(\<forall>d \<in> set (filter (restore_eligible h) dirs). fst (run_process h (fst (restore_call h d))) = 0)
      \<longrightarrow> check_calls (fst (install_packages h))
            = map (restore_call h) (filter (restore_eligible h) dirs)
          \<and> snd (install_packages h) = Inr ()"
    unfolding install_packages_unfold [OF ls] restore_call_eq
    using install_packages_loop_all [of h dirs ?nuget "DEVTOOLS h = ''Mono''"]
    by simp
  from a b show ?thesis by blast
qed


theorem restore_selects_eligible_witness:
  "os_listdir windows_host ''src'' = Some [''clrmodule'', ''monoclr''] \<and>
   check_calls (fst (install_packages windows_host))
     = [(''tools'' @ [CHR 0x5C] @ ''nuget'' @ [CHR 0x5C] @ ''nuget.exe install src''
           @ [CHR 0x5C] @ ''clrmodule'' @ [CHR 0x5C] @ ''packages.config -o packages'', False)] \<and>
   snd (install_packages windows_host) = Inr () \<and>
   check_calls (fst (install_packages linux_host))
     = [(''mono tools/nuget/nuget.exe install src/monoclr/packages.config -o packages'', True),
        (''mono tools/nuget/nuget.exe install src/runtime/packages.config -o packages'', True)]"
proof -
  have lw: "os_listdir windows_host ''src'' = Some [''clrmodule'', ''monoclr'']"
    by (simp add: windows_host_def)
  have ll: "os_listdir linux_host ''src'' = Some [''clrmodule'', ''monoclr'', ''runtime'', ''testing'']"
    by (simp add: linux_host_def)
  have ew: "filter (restore_eligible windows_host) [''clrmodule'', ''monoclr''] = [''clrmodule'']"
    by (simp add: restore_eligible_def reserved_for_inactive_def manifest_path_def DEVTOOLS_def
        windows_host_def path_eval)
  have el: "filter (restore_eligible linux_host) [''clrmodule'', ''monoclr'', ''runtime'', ''testing'']
      = [''monoclr'', ''runtime'']"
    by (simp add: restore_eligible_def reserved_for_inactive_def manifest_path_def DEVTOOLS_def
        linux_host_def path_eval)
  have cw: "restore_call windows_host ''clrmodule''
     = (''tools'' @ [CHR 0x5C] @ ''nuget'' @ [CHR 0x5C] @ ''nuget.exe install src''
           @ [CHR 0x5C] @ ''clrmodule'' @ [CHR 0x5C] @ ''packages.config -o packages'', False)"
    by (simp add: restore_call_def manifest_path_def DEVTOOLS_def windows_host_def path_eval)
  have cl: "restore_call linux_host ''monoclr''
     = (''mono tools/nuget/nuget.exe install src/monoclr/packages.config -o packages'', True)"
     "restore_call linux_host ''runtime''
     = (''mono tools/nuget/nuget.exe install src/runtime/packages.config -o packages'', True)"
    by (simp_all add: restore_call_def manifest_path_def DEVTOOLS_def linux_host_def path_eval)
  have rw: "fst (run_process windows_host c) = 0" for c
    by (simp add: windows_host_def)
  have rl: "fst (run_process linux_host c) = 0" for c
    by (simp add: linux_host_def)
  have W: "check_calls (fst (install_packages windows_host))
             = map (restore_call windows_host) [''clrmodule'']
           \<and> snd (install_packages windows_host) = Inr ()"
    using restore_selects_eligible [OF lw, unfolded ew] by (simp add: rw)
  have L: "check_calls (fst (install_packages linux_host))
             = map (restore_call linux_host) [''monoclr'', ''runtime'']"
    using restore_selects_eligible [OF ll, unfolded el] by (simp add: rl)
  show ?thesis
    using W L lw by (simp add: cw cl)
qed

section \<open>Process failures end the run\<close>











section \<open>The runs of build\_extension and of the shim build\<close>

lemma build_extension_clr:
  "ext_name ext = ''clr'' \<Longrightarrow>
   build_extension h g ext =
     bind (install_packages h) (\<lambda>_.
     bind (if \<not> os_path_exists h (clr_dest_dir h) then emit (MakeDirs (clr_dest_dir h)) else ret ()) (\<lambda>_.
     bind (emit (Announce (''Building: '' @ str_join '' '' (build_cmd h g (clr_dest_dir h))))) (\<lambda>_.
     bind (check_call h (fst (xbuild_call h g ''Clean'')) (snd (xbuild_call h g ''Clean''))) (\<lambda>_.
     bind (check_call h (fst (xbuild_call h g ''Build'')) (snd (xbuild_call h g ''Build''))) (\<lambda>_.
     if DEVTOOLS h = ''Mono'' then build_monoclr h g ext else ret ())))))"
  by (simp add: build_extension_def clr_dest_dir_def xbuild_call_def Let_def)

lemma build_extension_restore_failed:
  assumes "ext_name ext = ''clr''" and "install_packages h = (t0, Inl e)"
  shows "build_extension h g ext = (t0, Inl e)"
  by (simp add: build_extension_clr [OF assms(1)] assms(2) bind_Inl)

lemma build_extension_run:
  assumes "ext_name ext = ''clr''" and "install_packages h = (t0, Inr ())"
  shows "build_extension h g ext =
     (t0 @ (if os_path_exists h (clr_dest_dir h) then [] else [MakeDirs (clr_dest_dir h)])
         @ [Announce (''Building: '' @ str_join '' '' (build_cmd h g (clr_dest_dir h))),
            CheckCall (fst (xbuild_call h g ''Clean'')) (snd (xbuild_call h g ''Clean''))]
         @ (if fst (run_process h (fst (xbuild_call h g ''Clean''))) \<noteq> 0 then []
            else CheckCall (fst (xbuild_call h g ''Build'')) (snd (xbuild_call h g ''Build''))
                 # (if fst (run_process h (fst (xbuild_call h g ''Build''))) \<noteq> 0 then []
                    else if DEVTOOLS h = ''Mono'' then fst (build_monoclr h g ext) else [])),
      if fst (run_process h (fst (xbuild_call h g ''Clean''))) \<noteq> 0
      then Inl (CalledProcessError (fst (run_process h (fst (xbuild_call h g ''Clean''))))
                  (fst (xbuild_call h g ''Clean'')) None)
      else if fst (run_process h (fst (xbuild_call h g ''Build''))) \<noteq> 0
      then Inl (CalledProcessError (fst (run_process h (fst (xbuild_call h g ''Build''))))
                  (fst (xbuild_call h g ''Build'')) None)
      else if DEVTOOLS h = ''Mono'' then snd (build_monoclr h g ext) else Inr ())"
  by (simp add: build_extension_clr [OF assms(1)] assms(2) bind_Inr bind_Inl bind_emit bind_ret
      check_call_run fst_ret snd_ret)


lemma pkg_config_literals:
  "pkg_config ''libs'' ''mono-2'' = ''pkg-config --libs mono-2''"
  "pkg_config ''cflags'' ''mono-2'' = ''pkg-config --cflags mono-2''"
  "pkg_config ''libs'' ''glib-2.0'' = ''pkg-config --libs glib-2.0''"
  "pkg_config ''cflags'' ''glib-2.0'' = ''pkg-config --cflags glib-2.0''"
  by (simp_all add: pkg_config_def)

lemma build_monoclr_queries_ok:
  assumes "\<forall>q \<in> set [pkg_config ''libs'' ''mono-2'', pkg_config ''cflags'' ''mono-2'',
                     pkg_config ''libs'' ''glib-2.0'', pkg_config ''cflags'' ''glib-2.0''].
             fst (run_process h q) = 0"
  shows "build_monoclr h g ext =
     ([Popen (pkg_config ''libs'' ''mono-2'') True, Popen (pkg_config ''cflags'' ''mono-2'') True,
       Popen (pkg_config ''libs'' ''glib-2.0'') True, Popen (pkg_config ''cflags'' ''glib-2.0'') True,
       StockBuildExtension
         \<lparr>ext_name = ''clr'',
          ext_sources = [''src/monoclr/pynetinit.c'', ''src/monoclr/clrmod.c''],
          define_macros = [], undef_macros = [], include_dirs = [],
          ext_depends = [], library_dirs = [], runtime_library_dirs = [],
          extra_compile_args = str_split CHR '' '' (discovered_cflags h),
          extra_link_args = str_split CHR '' '' (discovered_libs h)\<rparr>,
       CompilerCompile
         \<lparr>cc_sources = [''src/monoclr/pynetinit.c'', ''src/monoclr/python.c''],
          cc_output_dir = build_temp h,
          cc_macros = map (\<lambda>(n, v). Define n v) (define_macros ext) @ map Undef (undef_macros ext),
          cc_include_dirs = include_dirs ext, cc_debug = debug_flag h,
          cc_extra_postargs = str_split CHR '' '' (discovered_cflags h),
          cc_depends = ext_depends ext\<rparr>]
      @ (case bldlibrary h of
           None \<Rightarrow> []
         | Some py_libs \<Rightarrow>
             [LinkExecutable
               \<lparr>ld_objects = compiled_objects h
                  \<lparr>cc_sources = [''src/monoclr/pynetinit.c'', ''src/monoclr/python.c''],
                   cc_output_dir = build_temp h,
                   cc_macros = map (\<lambda>(n, v). Define n v) (define_macros ext)
                                 @ map Undef (undef_macros ext),
                   cc_include_dirs = include_dirs ext, cc_debug = debug_flag h,
                   cc_extra_postargs = str_split CHR '' '' (discovered_cflags h),
                   cc_depends = ext_depends ext\<rparr>,
                ld_output_progname = npython_exe g,
                ld_output_dir = os_path_dirname h (get_ext_fullpath h (ext_name ext)),
                ld_libraries = get_libraries h ext,
                ld_library_dirs = library_dirs ext,
                ld_runtime_library_dirs = runtime_library_dirs ext,
                ld_extra_postargs = str_split CHR '' '' (discovered_libs h @ '' '' @ py_libs),
                ld_debug = debug_flag h\<rparr>]),
      case bldlibrary h of None \<Rightarrow> Inl TypeError | Some py_libs \<Rightarrow> Inr ())"
  using assms
  by (simp add: build_monoclr_def check_output_run bind_Inr bind_emit Let_def
      discovered_cflags_def discovered_libs_def pkg_config_literals raise_def emit_def
      split: option.splits)


lemma events_bind:
  assumes "\<forall>e \<in> set (fst m). P e" and "\<And>x. \<forall>e \<in> set (fst (f x)). P e"
  shows "\<forall>e \<in> set (fst (bind m f)). P e"
proof (cases m)
  case (Pair t r)
  then show ?thesis
    using assms by (cases r) (auto simp: bind_Inl bind_Inr)
qed

lemma events_ret: "\<forall>e \<in> set (fst (ret x)). P e"
  by (simp add: ret_def)

lemma events_raise: "\<forall>e \<in> set (fst (raise x)). P e"
  by (simp add: raise_def)

lemma events_emit: "P e \<Longrightarrow> \<forall>e' \<in> set (fst (emit e)). P e'"
  by (simp add: emit_def)

lemma events_check_call: "P (CheckCall c s) \<Longrightarrow> \<forall>e \<in> set (fst (check_call h c s)). P e"
  by (simp add: check_call_run)

lemma events_check_output: "P (Popen c s) \<Longrightarrow> \<forall>e \<in> set (fst (check_output h c s)). P e"
  by (simp add: check_output_run)

lemma install_packages_loop_no_shim:
  "\<forall>e \<in> set (fst (install_packages_loop h nuget sh dirs)). \<not> is_shim_event e"
proof (induction dirs)
  case Nil
  show ?case by (simp add: fst_ret)
next
  case (Cons d dirs)
  show ?case
  proof (cases "restore_eligible h d")
    case False
    then show ?thesis
      using Cons.IH by (simp add: install_packages_loop_skip del: install_packages_loop.simps)
  next
    case True
    show ?thesis
      unfolding install_packages_loop_step [OF True]
      by (intro events_bind events_emit events_check_call Cons.IH) simp_all
  qed
qed

lemma install_packages_no_shim: "\<forall>e \<in> set (fst (install_packages h)). \<not> is_shim_event e"
  by (simp add: install_packages_def Let_def install_packages_loop_no_shim fst_raise
      split: option.splits)

lemma build_monoclr_events:
  assumes "ext_name ext = ''clr''"
  shows "\<forall>e \<in> set (fst (build_monoclr h g ext)). shim_event_ok h g e"
  by (simp add: build_monoclr_def check_output_run bind_Inr bind_Inl bind_emit Let_def
      shim_event_ok_def clr_dest_dir_def assms fst_raise emit_def split: option.splits)

lemma build_monoclr_starts:
  "Popen (pkg_config ''libs'' ''mono-2'') True \<in> set (fst (build_monoclr h g ext))"
  by (simp add: build_monoclr_def check_output_run bind_Inr bind_Inl pkg_config_literals)

lemma install_packages_succeeds:
  assumes "os_listdir h ''src'' = Some dirs"
    and "\<forall>d \<in> set (filter (restore_eligible h) dirs). fst (run_process h (fst (restore_call h d))) = 0"
  shows "snd (install_packages h) = Inr ()"
  unfolding install_packages_unfold [OF assms(1)]
  using install_packages_loop_all [of h dirs
      "(if DEVTOOLS h = ''Mono'' then ''mono '' else []) @ os_path_join h [''tools'', ''nuget'', ''nuget.exe'']"
      "DEVTOOLS h = ''Mono''"] assms(2)
  by (simp add: restore_call_def)

lemma shim_events_no_check_calls:
  "\<forall>e \<in> set t. shim_event_ok h g e \<Longrightarrow> check_calls t = []"
  by (induction t rule: check_calls.induct) (simp_all add: shim_event_ok_def)

lemma shim_event_ok_is_shim: "shim_event_ok h g e \<Longrightarrow> is_shim_event e"
  by (cases e) (simp_all add: shim_event_ok_def)

section \<open>Evaluation on the example hosts\<close>

lemmas run_eval = bind_def emit_def ret_def raise_def check_call_def check_output_def Let_def

lemma linux_install_packages:
  "install_packages linux_host =
     ([Announce (''Installng packages for monoclr: '' @ linux_restore_command ''monoclr''),
       CheckCall (linux_restore_command ''monoclr'') True,
       Announce (''Installng packages for runtime: '' @ linux_restore_command ''runtime''),
       CheckCall (linux_restore_command ''runtime'') True],
      Inr ())"
  by (simp add: install_packages_def DEVTOOLS_def linux_host_def path_eval run_eval
      linux_restore_command_def)

lemma broken_xbuild_install_packages:
  "install_packages broken_xbuild_host = install_packages linux_host"
  by (simp add: install_packages_def DEVTOOLS_def broken_xbuild_host_def linux_host_def
      path_eval run_eval)

lemma linux_xbuild_call:
  "xbuild_call linux_host mono_toolchain target = (linux_xbuild_command target, True)"
  by (simp add: xbuild_call_def build_cmd_def build_defines_def clr_dest_dir_def DEVTOOLS_def
      PLATFORM_def VERBOSITY_def CONFIG_def mono_toolchain_def linux_host_def path_eval
      digit_char_def linux_xbuild_command_def)

lemma broken_xbuild_xbuild_call:
  "xbuild_call broken_xbuild_host mono_toolchain target = (linux_xbuild_command target, True)"
  by (simp add: xbuild_call_def build_cmd_def build_defines_def clr_dest_dir_def DEVTOOLS_def
      PLATFORM_def VERBOSITY_def CONFIG_def mono_toolchain_def broken_xbuild_host_def
      linux_host_def path_eval digit_char_def linux_xbuild_command_def)

lemma broken_xbuild_run_process:
  "run_process broken_xbuild_host (linux_xbuild_command target)
     = (1, ''error MSB1009: Project file does not exist'')"
  by (simp add: broken_xbuild_host_def linux_host_def linux_xbuild_command_def)

lemma linux_run_process_status: "fst (run_process linux_host c) = 0"
  by (simp add: linux_host_def)

lemma clr_extension_name: "ext_name clr_extension = ''clr''"
  by (simp add: clr_extension_def)

lemma example_devtools:
  "DEVTOOLS linux_host = ''Mono''" "DEVTOOLS windows_host = ''MsDev''"
  "DEVTOOLS broken_xbuild_host = ''Mono''" "DEVTOOLS broken_nuget_host = ''Mono''"
  "DEVTOOLS broken_pkg_config_host = ''Mono''"
  by (simp_all add: DEVTOOLS_def linux_host_def windows_host_def broken_xbuild_host_def
      broken_nuget_host_def broken_pkg_config_host_def)








lemma linux_discovered:
  "discovered_cflags linux_host = ''-I/usr/include/mono-2.0 -I/usr/include/glib-2.0''"
  "discovered_libs linux_host = ''-lmono-2.0 -lm -lglib-2.0''"
  by (simp_all add: discovered_cflags_def discovered_libs_def pkg_config_def linux_host_def
      str_strip_def is_space_def)

section \<open>Clean, then Build\<close>

text \<open>
  Claim C1, as amended.  After a successful package restore, \<^verbatim>\<open>build_extension\<close> for the
  \<^verbatim>\<open>clr\<close> extension invokes the build tool with target \<^verbatim>\<open>Clean\<close> and then, only when
  that exits with status 0, with target \<^verbatim>\<open>Build\<close>; these are its only \<^verbatim>\<open>check_call\<close>
  invocations after the restore ones.  Both command lines are the same configuration,
  platform, joined defines, absolute output directory and verbosity, followed by the
  target.  When \<^verbatim>\<open>Clean\<close> exits with a non-zero status, \<^verbatim>\<open>Build\<close> is not attempted and
  the run ends with a \<open>CalledProcessError\<close> that carries the exit status and the command
  line and no output.
\<close>

theorem clean_then_build:
  "ext_name ext = ''clr'' \<Longrightarrow> snd (install_packages h) = Inr () \<Longrightarrow>
   check_calls (fst (build_extension h g ext)) =
     check_calls (fst (install_packages h)) @ xbuild_call h g ''Clean'' #
       (if fst (run_process h (fst (xbuild_call h g ''Clean''))) = 0
        then [xbuild_call h g ''Build''] else []) \<and>
   (fst (run_process h (fst (xbuild_call h g ''Clean''))) \<noteq> 0 \<longrightarrow>
      snd (build_extension h g ext) =
        Inl (CalledProcessError (fst (run_process h (fst (xbuild_call h g ''Clean''))))
               (fst (xbuild_call h g ''Clean'')) None)) \<and>
   (\<forall>target. xbuild_call h g target =
      (str_join '' ''
         [xbuild g, ''pythonnet.sln'', ''/p:Configuration='' @ config_name g,
          ''/p:Platform='' @ PLATFORM h,
          ''/p:DefineConstants='' @ [CHR 0x22] @ str_join (defines_sep g) (build_defines h)
             @ [CHR 0x22],
          ''/p:PythonBuildDir='' @ os_path_abspath h (clr_dest_dir h),
          ''/verbosity:'' @ VERBOSITY, ''/t:'' @ target],
       DEVTOOLS h = ''Mono''))"
proof -
  assume clr: "ext_name ext = ''clr''" and ok: "snd (install_packages h) = Inr ()"
  have pair: "install_packages h = (fst (install_packages h), Inr ())"
    using ok by (simp add: prod_eq_iff)
  have mono: "check_calls (fst (build_monoclr h g ext)) = []"
    using build_monoclr_events [OF clr] by (rule shim_events_no_check_calls)
  have a: "check_calls (fst (build_extension h g ext)) =
     check_calls (fst (install_packages h)) @ xbuild_call h g ''Clean'' #
       (if fst (run_process h (fst (xbuild_call h g ''Clean''))) = 0
        then [xbuild_call h g ''Build''] else [])"
    by (simp add: build_extension_run [OF clr pair] check_calls_append mono)
  have b: "fst (run_process h (fst (xbuild_call h g ''Clean''))) \<noteq> 0 \<longrightarrow>
      snd (build_extension h g ext) =
        Inl (CalledProcessError (fst (run_process h (fst (xbuild_call h g ''Clean''))))
               (fst (xbuild_call h g ''Clean'')) None)"
    by (simp add: build_extension_run [OF clr pair])
  have c: "\<forall>target. xbuild_call h g target =
      (str_join '' ''
         [xbuild g, ''pythonnet.sln'', ''/p:Configuration='' @ config_name g,
          ''/p:Platform='' @ PLATFORM h,
          ''/p:DefineConstants='' @ [CHR 0x22] @ str_join (defines_sep g) (build_defines h)
             @ [CHR 0x22],
          ''/p:PythonBuildDir='' @ os_path_abspath h (clr_dest_dir h),
          ''/verbosity:'' @ VERBOSITY, ''/t:'' @ target],
       DEVTOOLS h = ''Mono'')"
    by (simp add: xbuild_call_def build_cmd_def)
  from a b c show ?thesis by blast
qed

text \<open>
  The claim as stated fails in its last part: on a host whose build tool prints a
  diagnostic and exits with status 1, the error that surfaces has no output attached.
\<close>

theorem clean_failure_output_counterexample:
  "run_process broken_xbuild_host (linux_xbuild_command ''Clean'')
     = (1, ''error MSB1009: Project file does not exist'') \<and>
   surfaced_error (build_extension broken_xbuild_host mono_toolchain clr_extension)
     = Some (CalledProcessError 1 (linux_xbuild_command ''Clean'') None) \<and>
   check_calls (fst (build_extension broken_xbuild_host mono_toolchain clr_extension))
     = [(linux_restore_command ''monoclr'', True), (linux_restore_command ''runtime'', True),
        (linux_xbuild_command ''Clean'', True)]"
  by (simp add: build_extension_run [OF clr_extension_name
        broken_xbuild_install_packages [unfolded linux_install_packages]]
      broken_xbuild_xbuild_call broken_xbuild_run_process surfaced_error_def)

theorem clean_then_build_witness:
  "ext_name clr_extension = ''clr'' \<and>
   snd (install_packages broken_xbuild_host) = Inr () \<and>
   check_calls (fst (build_extension broken_xbuild_host mono_toolchain clr_extension))
     = [(linux_restore_command ''monoclr'', True), (linux_restore_command ''runtime'', True),
        (linux_xbuild_command ''Clean'', True)] \<and>
   snd (build_extension broken_xbuild_host mono_toolchain clr_extension)
     = Inl (CalledProcessError 1 (linux_xbuild_command ''Clean'') None) \<and>
   check_calls (fst (build_extension linux_host mono_toolchain clr_extension))
     = [(linux_restore_command ''monoclr'', True), (linux_restore_command ''runtime'', True),
        (linux_xbuild_command ''Clean'', True), (linux_xbuild_command ''Build'', True)]"
proof -
  have ok1: "snd (install_packages broken_xbuild_host) = Inr ()"
    by (simp add: broken_xbuild_install_packages linux_install_packages)
  have ok2: "snd (install_packages linux_host) = Inr ()"
    by (simp add: linux_install_packages)
  show ?thesis
    using clean_then_build [OF clr_extension_name ok1, of mono_toolchain]
      clean_then_build [OF clr_extension_name ok2, of mono_toolchain]
    by (simp add: clr_extension_name broken_xbuild_install_packages linux_install_packages
        broken_xbuild_xbuild_call linux_xbuild_call broken_xbuild_run_process
        linux_run_process_status)
qed

section \<open>The native shim build\<close>

text \<open>
  Claim C5.  For the \<^verbatim>\<open>clr\<close> extension, an event of the native shim build (a
  configuration query or a compiler call) occurs in the run of \<^verbatim>\<open>build_extension\<close>
  exactly when the toolchain is Mono, the package restore succeeded and both build tool
  invocations, \<^verbatim>\<open>Clean\<close> and \<^verbatim>\<open>Build\<close>, exited with status 0: never under MsDev and never
  after a failure.  Every such event is directed at the same output: the extension handed
  to the stock builder is named \<^verbatim>\<open>clr\<close> and the executable is linked into the output
  directory of the \<^verbatim>\<open>clr\<close> extension.  The shim build itself consists of queries and
  compiler calls only: it starts no build tool, and so no \<^verbatim>\<open>Clean\<close> target, creates no
  directory and copies no file.
\<close>

theorem shim_only_after_build:
  "ext_name ext = ''clr'' \<Longrightarrow>
   ((\<exists>e \<in> set (fst (build_extension h g ext)). is_shim_event e) =
      (DEVTOOLS h = ''Mono'' \<and> snd (install_packages h) = Inr () \<and>
       fst (run_process h (fst (xbuild_call h g ''Clean''))) = 0 \<and>
       fst (run_process h (fst (xbuild_call h g ''Build''))) = 0)) \<and>
   (\<forall>e \<in> set (fst (build_extension h g ext)). is_shim_event e \<longrightarrow> shim_event_ok h g e) \<and>
   (\<forall>e \<in> set (fst (build_monoclr h g ext)). is_shim_event e)"
proof -
  assume clr: "ext_name ext = ''clr''"
  note mono = build_monoclr_events [OF clr, of h g]
  have starts: "\<exists>e \<in> set (fst (build_monoclr h g ext)). is_shim_event e"
    using build_monoclr_starts [of h g ext] by (rule bexI [rotated]) simp
  have c: "\<forall>e \<in> set (fst (build_monoclr h g ext)). is_shim_event e"
    using mono by (blast intro: shim_event_ok_is_shim)
  have ab: "((\<exists>e \<in> set (fst (build_extension h g ext)). is_shim_event e) =
      (DEVTOOLS h = ''Mono'' \<and> snd (install_packages h) = Inr () \<and>
       fst (run_process h (fst (xbuild_call h g ''Clean''))) = 0 \<and>
       fst (run_process h (fst (xbuild_call h g ''Build''))) = 0)) \<and>
   (\<forall>e \<in> set (fst (build_extension h g ext)). is_shim_event e \<longrightarrow> shim_event_ok h g e)"
  proof (cases "snd (install_packages h)")
    case (Inl e)
    then have pair: "install_packages h = (fst (install_packages h), Inl e)"
      by (simp add: prod_eq_iff)
    show ?thesis
      using install_packages_no_shim [of h]
      by (simp add: build_extension_restore_failed [OF clr pair] Inl)
  next
    case (Inr u)
    then have pair: "install_packages h = (fst (install_packages h), Inr ())"
      by (simp add: prod_eq_iff)
    show ?thesis
      using install_packages_no_shim [of h] starts mono
      by (auto simp: build_extension_run [OF clr pair] Inr)
  qed
  from ab c show ?thesis by blast
qed

theorem shim_only_after_build_witness:
  "ext_name clr_extension = ''clr'' \<and>
   (\<exists>e \<in> set (fst (build_extension linux_host mono_toolchain clr_extension)). is_shim_event e) \<and>
   \<not> (\<exists>e \<in> set (fst (build_extension windows_host msdev_toolchain clr_extension)). is_shim_event e) \<and>
   \<not> (\<exists>e \<in> set (fst (build_extension broken_xbuild_host mono_toolchain clr_extension)).
         is_shim_event e)"
proof -
  have ok: "snd (install_packages linux_host) = Inr ()"
    by (simp add: linux_install_packages)
  have a: "\<exists>e \<in> set (fst (build_extension linux_host mono_toolchain clr_extension)). is_shim_event e"
    using shim_only_after_build [OF clr_extension_name, of linux_host mono_toolchain]
    by (simp add: example_devtools ok linux_run_process_status)
  have b: "\<not> (\<exists>e \<in> set (fst (build_extension windows_host msdev_toolchain clr_extension)). is_shim_event e)"
    using shim_only_after_build [OF clr_extension_name, of windows_host msdev_toolchain]
    by (simp add: example_devtools)
  have c: "\<not> (\<exists>e \<in> set (fst (build_extension broken_xbuild_host mono_toolchain clr_extension)).
         is_shim_event e)"
    using shim_only_after_build [OF clr_extension_name, of broken_xbuild_host mono_toolchain]
    by (simp add: broken_xbuild_xbuild_call broken_xbuild_run_process)
  from a b c clr_extension_name show ?thesis by blast
qed

section \<open>What a failing process surfaces as\<close>




section \<open>Preprocessor defines\<close>




section \<open>Flag discovery\<close>

text \<open>
  Claim C8.  When the four configuration queries exit with status 0, the shim build
  starts exactly these queries, through the shell and in this order: link flags and
  compile flags of \<^verbatim>\<open>mono-2\<close>, then link flags and compile flags of \<^verbatim>\<open>glib-2.0\<close>.
  The compile flag string is the trimmed output of the two compile flag queries joined by
  one space, \<^verbatim>\<open>mono-2\<close> first, and likewise the link flag string; split at spaces they
  are the extra arguments of the extension build, of the compile call and (with the
  interpreter's own library appended) of the link call.
\<close>

theorem flag_discovery:
  "\<forall>q \<in> set [pkg_config ''libs'' ''mono-2'', pkg_config ''cflags'' ''mono-2'',
               pkg_config ''libs'' ''glib-2.0'', pkg_config ''cflags'' ''glib-2.0''].
      fst (run_process h q) = 0 \<Longrightarrow>
   popen_calls (fst (build_monoclr h g ext)) =
     [(pkg_config ''libs'' ''mono-2'', True), (pkg_config ''cflags'' ''mono-2'', True),
      (pkg_config ''libs'' ''glib-2.0'', True), (pkg_config ''cflags'' ''glib-2.0'', True)] \<and>
   (\<exists>x. StockBuildExtension x \<in> set (fst (build_monoclr h g ext))) \<and>
   (\<forall>x. StockBuildExtension x \<in> set (fst (build_monoclr h g ext)) \<longrightarrow>
      extra_compile_args x = str_split CHR '' '' (discovered_cflags h) \<and>
      extra_link_args x = str_split CHR '' '' (discovered_libs h)) \<and>
   (\<forall>c. CompilerCompile c \<in> set (fst (build_monoclr h g ext)) \<longrightarrow>
      cc_extra_postargs c = str_split CHR '' '' (discovered_cflags h)) \<and>
   (\<forall>l py_libs. LinkExecutable l \<in> set (fst (build_monoclr h g ext)) \<longrightarrow>
      bldlibrary h = Some py_libs \<longrightarrow>
      ld_extra_postargs l = str_split CHR '' '' (discovered_libs h @ '' '' @ py_libs))"
proof -
  assume ok: "\<forall>q \<in> set [pkg_config ''libs'' ''mono-2'', pkg_config ''cflags'' ''mono-2'',
               pkg_config ''libs'' ''glib-2.0'', pkg_config ''cflags'' ''glib-2.0''].
      fst (run_process h q) = 0"
  show ?thesis
    unfolding build_monoclr_queries_ok [OF ok]
    by (auto split: option.splits)
qed

theorem flag_discovery_witness:
  "popen_calls (fst (build_monoclr linux_host mono_toolchain clr_extension)) =
     [(''pkg-config --libs mono-2'', True), (''pkg-config --cflags mono-2'', True),
      (''pkg-config --libs glib-2.0'', True), (''pkg-config --cflags glib-2.0'', True)] \<and>
   (\<exists>x. StockBuildExtension x \<in> set (fst (build_monoclr linux_host mono_toolchain clr_extension))
      \<and> extra_compile_args x = [''-I/usr/include/mono-2.0'', ''-I/usr/include/glib-2.0'']
      \<and> extra_link_args x = [''-lmono-2.0'', ''-lm'', ''-lglib-2.0''])"
proof -
  have ok: "\<forall>q \<in> set [pkg_config ''libs'' ''mono-2'', pkg_config ''cflags'' ''mono-2'',
               pkg_config ''libs'' ''glib-2.0'', pkg_config ''cflags'' ''glib-2.0''].
      fst (run_process linux_host q) = 0"
    by (simp add: linux_run_process_status)
  have sp: "str_split CHR '' '' (discovered_cflags linux_host)
              = [''-I/usr/include/mono-2.0'', ''-I/usr/include/glib-2.0'']"
    "str_split CHR '' '' (discovered_libs linux_host) = [''-lmono-2.0'', ''-lm'', ''-lglib-2.0'']"
    by (simp_all add: linux_discovered)
  from flag_discovery [OF ok, of mono_toolchain clr_extension]
  show ?thesis
    unfolding sp pkg_config_literals by blast
qed

section \<open>Installing the build output\<close>



















end
